theory Spec2Isabelle
  imports Complex_Main "HOL-Library.Sublist" "HOL-Library.Word"
begin

section \<open>Data model\<close>

text \<open>
  The dashboard of \<^verbatim>\<open>app.py\<close> keeps two JSON documents (user profiles and per-user
  transaction logs), mirrors them in two module-level dictionaries, and analyses an
  uploaded table with pandas.

  Strings are byte strings, so \<^verbatim>\<open>encode('utf-8')\<close> and \<^verbatim>\<open>decode('utf-8')\<close> are the
  identity.
\<close>

text \<open>
  A row of the uploaded table, with cells of type \<open>'n\<close> in the \<^verbatim>\<open>balance\<close> column. Only
  the two columns that \<^verbatim>\<open>analyze_transactions\<close> reads are kept; a field is meaningful
  only when the column index of the frame lists its column, and the code reads it only
  then.
\<close>

record 'n row =
  DrCr :: string
  balance :: 'n

text \<open>A pandas data frame: \<^verbatim>\<open>data.columns\<close> and the rows in input order.\<close>

record 'n dataframe =
  columns :: "string list"
  rows :: "'n row list"

text \<open>The exceptions raised on the paths modelled here.\<close>

datatype error = ValueError string | IndexError | TypeError | JSONDecodeError

text \<open>
  What pandas and the \<^verbatim>\<open>json\<close> module do with a numeric column depends on its dtype:
  \<open>series_sum\<close> is \<^verbatim>\<open>Series.sum()\<close> on cells of that dtype, \<open>exact\<close> the number a scalar of
  the dtype denotes, and \<open>json_serializable\<close> tells whether \<^verbatim>\<open>json.dump\<close> accepts such a
  scalar.
\<close>

record 'n dtype =
  series_sum :: "'n list \<Rightarrow> 'n"
  exact :: "'n \<Rightarrow> rat"
  json_serializable :: bool

text \<open>
  A column of integers is read as \<^verbatim>\<open>int64\<close>: its sum is taken in 64-bit two's complement
  arithmetic and wraps around silently, a scalar denotes its signed value, and
  \<^verbatim>\<open>json.dump\<close> refuses a \<^verbatim>\<open>numpy.int64\<close> with a \<^verbatim>\<open>TypeError\<close>.
\<close>

definition int64 :: "64 word dtype" where
  "int64 = \<lparr>series_sum = sum_list, exact = (\<lambda>w. of_int (sint w)), json_serializable = False\<rparr>"

text \<open>
  A column with a decimal number is read as \<^verbatim>\<open>float64\<close>. A finite cell is modelled by the
  rational it denotes (blank cells and infinities are not represented). The sum rounds;
  how is left open: it is the parameter \<open>float_sum\<close>. A \<^verbatim>\<open>numpy.float64\<close> is a Python
  float, which \<^verbatim>\<open>json.dump\<close> accepts.
\<close>

definition float64 :: "(rat list \<Rightarrow> rat) \<Rightarrow> rat dtype" where
  "float64 float_sum = \<lparr>series_sum = float_sum, exact = (\<lambda>x. x), json_serializable = True\<rparr>"

text \<open>
  One element of a transaction log (the dictionary appended at lines 47 to 53). The
  rows of \<^verbatim>\<open>to_dict(orient="records")\<close> and the three totals are given by the numbers
  they denote.
\<close>

record entry =
  transactions :: "rat row list"
  total_balance :: rat
  total_credit :: rat
  total_debit :: rat
  timestamp :: string

text \<open>One value of the profile document (the dictionary stored at line 194).\<close>

record profile =
  name :: string
  email :: string
  password :: string

text \<open>
  The content of the log file: the dictionary that the text in the file encodes, or
  \<open>Truncated\<close> when a \<^verbatim>\<open>json.dump\<close> that raised has left the beginning of a document
  behind, which \<^verbatim>\<open>json.load\<close> rejects.
\<close>

datatype json_file = Truncated | Document "string \<rightharpoonup> entry list"

text \<open>
  The process state: the two dictionaries loaded at lines 27 and 28, the two files they
  are saved to, and the \<^verbatim>\<open>user_id\<close> slot of the Streamlit session state. The profile
  file is modelled by the dictionary it encodes (profiles hold strings only, which
  \<^verbatim>\<open>json.dump\<close> always accepts). \<open>numpy_in_logs\<close> records that the log dictionary in
  memory holds a value \<^verbatim>\<open>json.dump\<close> refuses, appended since the dictionary was loaded.
\<close>

record state =
  user_data :: "string \<rightharpoonup> profile"
  transaction_logs :: "string \<rightharpoonup> entry list"
  USER_DATA_FILE :: "string \<rightharpoonup> profile"
  TRANSACTION_LOG_FILE :: json_file
  session_user_id :: "string option"
  numpy_in_logs :: bool

text \<open>
  What a page shows: one constructor for each Streamlit call used, an f-string being the
  list of its literal and interpolated pieces. \<open>st_exception\<close> is the report of an
  exception that no handler caught, which ends the run of the script.
\<close>

datatype piece = Text string | Number rat | Raised error

datatype st =
    st_title string
  | st_success "piece list"
  | st_error "piece list"
  | st_warning string
  | st_markdown "piece list"
  | st_plotly_chart "rat list"
  | st_exception error

text \<open>
  The bcrypt library is not part of the repository: its two entry points are parameters.
  \<open>hashpw B pw salt\<close> stands for \<^verbatim>\<open>bcrypt.hashpw(pw, salt)\<close> and \<open>checkpw B pw hashed\<close>
  for \<^verbatim>\<open>bcrypt.checkpw(pw, hashed)\<close>; either may raise.
\<close>

record bcrypt =
  hashpw :: "string \<Rightarrow> string \<Rightarrow> error + string"
  checkpw :: "string \<Rightarrow> string \<Rightarrow> error + bool"

section \<open>Password hashing\<close>

text \<open>Line 32; \<open>salt\<close> is the value drawn by \<^verbatim>\<open>bcrypt.gensalt()\<close>.\<close>

definition hash_password :: "bcrypt \<Rightarrow> string \<Rightarrow> string \<Rightarrow> error + string" where
  "hash_password B pw salt = hashpw B pw salt"

text \<open>Line 35.\<close>

definition verify_password :: "bcrypt \<Rightarrow> string \<Rightarrow> string \<Rightarrow> error + bool" where
  "verify_password B stored_password entered_password =
     checkpw B entered_password stored_password"

section \<open>Analysing an upload\<close>

text \<open>\<^verbatim>\<open>series.iloc[-1]\<close>: the last element, an \<^verbatim>\<open>IndexError\<close> on an empty series.\<close>

definition iloc_last :: "'a list \<Rightarrow> error + 'a" where
  "iloc_last xs = (if xs = [] then Inl IndexError else Inr (last xs))"

text \<open>
  Lines 65 to 72, for a frame whose \<^verbatim>\<open>balance\<close> column has the dtype \<open>dt\<close>. The result is
  the triple (total balance, incoming, outgoing).
\<close>

definition analyze_transactions :: "'n dtype \<Rightarrow> 'n dataframe \<Rightarrow> error + ('n \<times> 'n \<times> 'n)" where
  "analyze_transactions dt data =
     (if ''DrCr'' \<in> set (columns data) \<and> ''balance'' \<in> set (columns data) then
        let incoming = series_sum dt (map balance (filter (\<lambda>r. DrCr r = ''Cr'') (rows data)));
            outgoing = series_sum dt (map balance (filter (\<lambda>r. DrCr r = ''Db'') (rows data)))
        in (case iloc_last (map balance (rows data)) of
              Inl e \<Rightarrow> Inl e
            | Inr tb \<Rightarrow> Inr (tb, incoming, outgoing))
      else Inl (ValueError ''Dataset must contain 'DrCr' and 'balance' columns.''))"

section \<open>Logging an upload\<close>

text \<open>\<^verbatim>\<open>logs.get(user_id, [])\<close>.\<close>

definition get_log :: "(string \<rightharpoonup> entry list) \<Rightarrow> string \<Rightarrow> entry list" where
  "get_log logs user_id = (case logs user_id of None \<Rightarrow> [] | Some h \<Rightarrow> h)"

text \<open>\<^verbatim>\<open>data.to_dict(orient="records")\<close>.\<close>

definition to_dict :: "'n dtype \<Rightarrow> 'n dataframe \<Rightarrow> rat row list" where
  "to_dict dt data = map (\<lambda>r. \<lparr>DrCr = DrCr r, balance = exact dt (balance r)\<rparr>) (rows data)"

text \<open>
  Lines 38 to 62; \<open>now\<close> is the value of \<^verbatim>\<open>datetime.now().isoformat()\<close>. An exception of
  the analysis leaves the \<^verbatim>\<open>try\<close> block before line 44 and is shown by the handler.
  Otherwise the entry is appended to the user's list (created empty when the key is
  missing) and \<^verbatim>\<open>save_json\<close> opens the file for writing, which empties it, and dumps
  the whole dictionary. If the dictionary holds a value that \<^verbatim>\<open>json.dump\<close> refuses, as
  the totals of an \<^verbatim>\<open>int64\<close> column are, the dump raises \<^verbatim>\<open>TypeError\<close> part of the way:
  the file is left truncated, the entry stays appended in memory, and the handler shows
  the error in place of the four messages of success.
\<close>

definition store_transaction_data ::
    "'n dtype \<Rightarrow> string \<Rightarrow> 'n dataframe \<Rightarrow> string \<Rightarrow> state \<Rightarrow> st list \<times> state" where
  "store_transaction_data dt user_id data now s =
     (case analyze_transactions dt data of
        Inl e \<Rightarrow> ([st_error [Text ''Error storing transaction data: '', Raised e]], s)
      | Inr (tb, incoming, outgoing) \<Rightarrow>
          let logs = (transaction_logs s)
                (user_id \<mapsto> get_log (transaction_logs s) user_id @
                   [\<lparr>transactions = to_dict dt data, total_balance = exact dt tb,
                     total_credit = exact dt incoming, total_debit = exact dt outgoing,
                     timestamp = now\<rparr>])
          in if numpy_in_logs s \<or> \<not> json_serializable dt then
               ([st_error [Text ''Error storing transaction data: '', Raised TypeError]],
                s\<lparr>transaction_logs := logs, TRANSACTION_LOG_FILE := Truncated,
                  numpy_in_logs := True\<rparr>)
             else
               ([st_success [Text ''Transaction logged successfully!''],
                 st_success [Text ''Total Balance: '', Number (exact dt tb), Text ''.''],
                 st_success [Text ''Total Debit: '', Number (exact dt outgoing), Text ''.''],
                 st_success [Text ''Total Credit: '', Number (exact dt incoming), Text ''.'']],
                s\<lparr>transaction_logs := logs, TRANSACTION_LOG_FILE := Document logs\<rparr>))"

section \<open>Pages\<close>

text \<open>
  Lines 75 to 113. The latest log element is read with \<^verbatim>\<open>[-1]\<close>, which raises on a user
  whose list is present and empty; a user without a list gets the defaults.
\<close>

definition user_profile_page ::
    "string \<Rightarrow> (string \<rightharpoonup> profile) \<Rightarrow> (string \<rightharpoonup> entry list) \<Rightarrow> st list" where
  "user_profile_page user_id users logs =
     st_title ''User Profile'' #
     (let nm = (case users user_id of None \<Rightarrow> ''Unknown'' | Some p \<Rightarrow> name p);
          em = (case users user_id of None \<Rightarrow> ''Unknown'' | Some p \<Rightarrow> email p)
      in case (case logs user_id of
                 None \<Rightarrow> Inr (0, 0, 0)
               | Some h \<Rightarrow>
                   (case iloc_last h of
                      Inl e \<Rightarrow> Inl e
                    | Inr a \<Rightarrow> Inr (total_balance a, total_credit a, total_debit a))) of
           Inl e \<Rightarrow> [st_exception e]
         | Inr (tb, tc, td) \<Rightarrow>
             [st_markdown [Text ''## Welcome, '', Text nm, Text ''!''],
              st_markdown [Text ''### User ID: '', Text user_id],
              st_markdown [Text ''### Email: '', Text em],
              st_markdown [Text ''### Total Balance: '', Number tb],
              st_plotly_chart [tc, td],
              st_markdown [Text ''### Total Debit: '', Number td],
              st_markdown [Text ''### Total Credit: '', Number tc]])"

text \<open>Lines 116 to 134.\<close>

definition recommendations_page :: "string \<Rightarrow> (string \<rightharpoonup> entry list) \<Rightarrow> st list" where
  "recommendations_page user_id logs =
     st_title ''Recommendations'' #
     (let user_transactions = get_log logs user_id in
      if user_transactions = [] then
        [st_warning ''No transaction data available for recommendations.'']
      else
        let latest_transaction = last user_transactions in
        if total_debit latest_transaction > total_balance latest_transaction * 0.5 then
          [st_markdown [Text ''### Recommendation: You are spending more than half of your balance. Consider budgeting your expenses.'']]
        else
          [st_markdown [Text ''### Recommendation: Your spending is under control! Keep up the good work.'']])"

text \<open>
  Lines 139 to 176. The uploader holds no file, a file whose name ends in \<^verbatim>\<open>.csv\<close> (given
  here as the frame \<^verbatim>\<open>pd.read_csv\<close> returns, with an \<^verbatim>\<open>int64\<close> or a \<^verbatim>\<open>float64\<close> column of
  balances), or another file. The preview of the table and the chart widgets that
  follow the logging only draw the frame; they are left out of the list of what is
  shown.
\<close>

datatype upload =
    NoFile
  | CsvInt64 "64 word dataframe"
  | CsvFloat64 "rat dataframe"
  | OtherFile

definition data_analytics_page ::
    "(rat list \<Rightarrow> rat) \<Rightarrow> string \<Rightarrow> upload \<Rightarrow> string \<Rightarrow> state \<Rightarrow> st list \<times> state" where
  "data_analytics_page float_sum user_id uploaded_file now s =
     (case uploaded_file of
        NoFile \<Rightarrow>
          ([st_title ''Smart Finance Dashboard'',
            st_markdown [Text ''Visualize your financial data with appealing charts.'']], s)
      | CsvInt64 data \<Rightarrow>
          (let (out, s') = store_transaction_data int64 user_id data now s
           in ([st_title ''Smart Finance Dashboard'',
                st_markdown [Text ''Visualize your financial data with appealing charts.''],
                st_success [Text ''Data loaded successfully!'']] @ out, s'))
      | CsvFloat64 data \<Rightarrow>
          (let (out, s') = store_transaction_data (float64 float_sum) user_id data now s
           in ([st_title ''Smart Finance Dashboard'',
                st_markdown [Text ''Visualize your financial data with appealing charts.''],
                st_success [Text ''Data loaded successfully!'']] @ out, s'))
      | OtherFile \<Rightarrow>
          ([st_title ''Smart Finance Dashboard'',
            st_markdown [Text ''Visualize your financial data with appealing charts.''],
            st_error [Text ''Error loading file. Please check the format.'']], s))"

section \<open>The application\<close>

text \<open>
  One interaction with the sidebar page selected, the inputs typed and the button of the
  page pressed. \<open>SignUp user_id name email password salt\<close> carries the salt that
  \<^verbatim>\<open>bcrypt.gensalt()\<close> draws, \<open>DataAnalytics file now\<close> the clock reading.
\<close>

datatype interaction =
    SignUp string string string string string
  | Login string string
  | Profile
  | Recommendations
  | DataAnalytics upload string

text \<open>
  Lines 179 to 228. A session user id that is empty counts as not logged in. An
  exception of the hashing library is caught nowhere: it ends the run with the state as
  it is.
\<close>

fun main :: "bcrypt \<Rightarrow> (rat list \<Rightarrow> rat) \<Rightarrow> interaction \<Rightarrow> state \<Rightarrow> st list \<times> state" where
  "main B float_sum (SignUp user_id nm em pw salt) s =
     (if user_id \<in> dom (user_data s) then
        ([st_title ''Sign Up'', st_error [Text ''User ID already exists.'']], s)
      else
        case hash_password B pw salt of
          Inl e \<Rightarrow> ([st_title ''Sign Up'', st_exception e], s)
        | Inr hashed_password \<Rightarrow>
            let users = (user_data s)
                  (user_id \<mapsto> \<lparr>name = nm, email = em, password = hashed_password\<rparr>)
            in ([st_title ''Sign Up'', st_success [Text ''User registered successfully!'']],
                s\<lparr>user_data := users, USER_DATA_FILE := users\<rparr>))"
| "main B float_sum (Login user_id pw) s =
     (case user_data s user_id of
        Some p \<Rightarrow>
          (case verify_password B (password p) pw of
             Inl e \<Rightarrow> ([st_title ''Login'', st_exception e], s)
           | Inr accepted \<Rightarrow>
               if accepted then
                 ([st_title ''Login'',
                   st_success [Text ''Welcome back, '', Text (name p), Text ''!'']],
                  s\<lparr>session_user_id := Some user_id\<rparr>)
               else
                 ([st_title ''Login'', st_error [Text ''Invalid User ID or Password.'']], s))
      | None \<Rightarrow> ([st_title ''Login'', st_error [Text ''Invalid User ID or Password.'']], s))"
| "main B float_sum Profile s =
     (case session_user_id s of
        Some user_id \<Rightarrow>
          if user_id \<noteq> [] then
            (user_profile_page user_id (user_data s) (transaction_logs s), s)
          else ([st_warning ''Please log in to view your profile.''], s)
      | None \<Rightarrow> ([st_warning ''Please log in to view your profile.''], s))"
| "main B float_sum Recommendations s =
     (case session_user_id s of
        Some user_id \<Rightarrow>
          if user_id \<noteq> [] then (recommendations_page user_id (transaction_logs s), s)
          else ([st_warning ''Please log in to view recommendations.''], s)
      | None \<Rightarrow> ([st_warning ''Please log in to view recommendations.''], s))"
| "main B float_sum (DataAnalytics uploaded_file now) s =
     (case session_user_id s of
        Some user_id \<Rightarrow>
          if user_id \<noteq> [] then data_analytics_page float_sum user_id uploaded_file now s
          else ([st_warning ''Please log in to access the dashboard.''], s)
      | None \<Rightarrow> ([st_warning ''Please log in to access the dashboard.''], s))"

text \<open>
  Lines 27 and 28: both dictionaries are read from their files; a truncated log file
  makes \<^verbatim>\<open>json.load\<close> raise.
\<close>

definition load :: "state \<Rightarrow> error + state" where
  "load s =
     (case TRANSACTION_LOG_FILE s of
        Truncated \<Rightarrow> Inl JSONDecodeError
      | Document logs \<Rightarrow>
          Inr (s\<lparr>user_data := USER_DATA_FILE s, transaction_logs := logs,
                 numpy_in_logs := False\<rparr>))"

text \<open>
  One run of the script. Streamlit executes the file from its first line on every
  interaction, so the dictionaries are loaded anew before \<open>main\<close> is called; only the
  files and the session state outlive a run. An exception while loading ends the run
  before \<open>main\<close>.
\<close>

definition script ::
    "bcrypt \<Rightarrow> (rat list \<Rightarrow> rat) \<Rightarrow> interaction \<Rightarrow> state \<Rightarrow> st list \<times> state" where
  "script B float_sum i s =
     (case load s of
        Inl e \<Rightarrow> ([st_exception e], s)
      | Inr s' \<Rightarrow> main B float_sum i s')"

text \<open>A sequence of interactions, each a run of the script.\<close>

fun run :: "bcrypt \<Rightarrow> (rat list \<Rightarrow> rat) \<Rightarrow> interaction list \<Rightarrow> state \<Rightarrow> state" where
  "run B float_sum [] s = s"
| "run B float_sum (i # acts) s = run B float_sum acts (snd (script B float_sum i s))"

text \<open>The state of a first start: \<^verbatim>\<open>load_json\<close> creates both files holding \<^verbatim>\<open>{}\<close>.\<close>

definition initial :: state where
  "initial = \<lparr>user_data = Map.empty, transaction_logs = Map.empty,
     USER_DATA_FILE = Map.empty, TRANSACTION_LOG_FILE = Document Map.empty,
     session_user_id = None, numpy_in_logs = False\<rparr>"

section \<open>The hashing library\<close>



definition bcrypt_raising :: bcrypt where
  "bcrypt_raising =
     \<lparr>hashpw = (\<lambda>pw salt.
        if length pw > 72 then Inl (ValueError ''password cannot be longer than 72 bytes, truncate manually if necessary (e.g. my_password[:72])'')
        else Inr pw),
      checkpw = (\<lambda>pw hashed.
        if length pw > 72 then Inl (ValueError ''password cannot be longer than 72 bytes, truncate manually if necessary (e.g. my_password[:72])'')
        else Inr (hashed = pw))\<rparr>"

section \<open>Sums of an integer column\<close>

text \<open>
  The signed value of a wrapping 64-bit sum is the exact sum reduced into the range from
  \<open>- 2 ^ 63\<close> to \<open>2 ^ 63 - 1\<close>, and is the exact sum when that lies in the range.
\<close>

lemma sint_sum_list:
  "sint (sum_list ws) = signed_take_bit 63 (\<Sum>w\<leftarrow>ws. sint w)" for ws :: "64 word list"
proof (induction ws)
  case Nil
  show ?case by simp
next
  case (Cons w ws)
  have own: "signed_take_bit 63 (sint w) = sint w"
    using sint_ge [of w] sint_lt [of w] by (simp add: signed_take_bit_int_eq_self)
  have "sint (w + sum_list ws) = signed_take_bit 63 (sint w + sint (sum_list ws))"
    by (simp add: sint_word_add)
  also have "\<dots> = signed_take_bit 63
      (signed_take_bit 63 (sint w) + signed_take_bit 63 (\<Sum>w\<leftarrow>ws. sint w))"
    by (simp only: Cons.IH own)
  also have "\<dots> = signed_take_bit 63 (sint w + (\<Sum>w\<leftarrow>ws. sint w))"
    by (rule signed_take_bit_add)
  finally show ?case by simp
qed

lemma sint_sum_list_exact:
  fixes ws :: "64 word list"
  assumes "- (2 ^ 63) \<le> (\<Sum>w\<leftarrow>ws. sint w)" and "(\<Sum>w\<leftarrow>ws. sint w) < 2 ^ 63"
  shows "sint (sum_list ws) = (\<Sum>w\<leftarrow>ws. sint w)"
  using assms by (simp add: sint_sum_list signed_take_bit_int_eq_self)

section \<open>Totals of a non-empty upload\<close>

text \<open>
  Claim C1, as stated, at two uploads with both columns. With no rows
  \<open>analyze_transactions\<close> returns no totals, because the last-row lookup raises. With the
  two credits \<open>2 ^ 63 - 1\<close> and 1 in an integer column the total credit is \<open>- 2 ^ 63\<close>, which
  is not their sum.
\<close>

theorem analyze_transactions_totals_counterexample:
  "analyze_transactions int64 \<lparr>columns = [''DrCr'', ''balance''], rows = []\<rparr> = Inl IndexError
   \<and> analyze_transactions int64 \<lparr>columns = [''DrCr'', ''balance''],
        rows = [\<lparr>DrCr = ''Cr'', balance = 9223372036854775807\<rparr>,
                \<lparr>DrCr = ''Cr'', balance = 1\<rparr>]\<rparr> =
       Inr (1, - 9223372036854775808, 0)
   \<and> exact int64 9223372036854775807 + exact int64 1 = 9223372036854775808
   \<and> exact int64 (- 9223372036854775808) = - 9223372036854775808"
  by (simp add: analyze_transactions_def iloc_last_def int64_def)

text \<open>
  Claim C1, amended to non-empty uploads with a numeric column of balances. For a frame
  that has both columns and at least one row, the total balance is the \<open>balance\<close> of the
  last row in input order. With an integer column the total credit is the sum of
  \<open>balance\<close> over the rows marked \<open>Cr\<close> reduced into the signed 64-bit range, and so the
  exact sum whenever that lies in the range; likewise the total debit over the rows
  marked \<open>Db\<close>. With a floating-point column the two totals are the floating-point sums
  of the same cells as pandas computes them.
\<close>

theorem analyze_transactions_totals:
  fixes data :: "64 word dataframe" and floats :: "rat dataframe"
  assumes "''DrCr'' \<in> set (columns data)" and "''balance'' \<in> set (columns data)"
    and "rows data \<noteq> []"
  shows "(\<exists>tc td.
      analyze_transactions int64 data = Inr (balance (last (rows data)), tc, td)
    \<and> sint tc = signed_take_bit 63 (\<Sum>r\<leftarrow>filter (\<lambda>r. DrCr r = ''Cr'') (rows data). sint (balance r))
    \<and> sint td = signed_take_bit 63 (\<Sum>r\<leftarrow>filter (\<lambda>r. DrCr r = ''Db'') (rows data). sint (balance r))
    \<and> (- (2 ^ 63) \<le> (\<Sum>r\<leftarrow>filter (\<lambda>r. DrCr r = ''Cr'') (rows data). sint (balance r))
         \<and> (\<Sum>r\<leftarrow>filter (\<lambda>r. DrCr r = ''Cr'') (rows data). sint (balance r)) < 2 ^ 63
       \<longrightarrow> sint tc = (\<Sum>r\<leftarrow>filter (\<lambda>r. DrCr r = ''Cr'') (rows data). sint (balance r)))
    \<and> (- (2 ^ 63) \<le> (\<Sum>r\<leftarrow>filter (\<lambda>r. DrCr r = ''Db'') (rows data). sint (balance r))
         \<and> (\<Sum>r\<leftarrow>filter (\<lambda>r. DrCr r = ''Db'') (rows data). sint (balance r)) < 2 ^ 63
       \<longrightarrow> sint td = (\<Sum>r\<leftarrow>filter (\<lambda>r. DrCr r = ''Db'') (rows data). sint (balance r))))
    \<and> (''DrCr'' \<in> set (columns floats) \<and> ''balance'' \<in> set (columns floats)
         \<and> rows floats \<noteq> [] \<longrightarrow>
       analyze_transactions (float64 float_sum) floats =
         Inr (balance (last (rows floats)),
              float_sum (map balance (filter (\<lambda>r. DrCr r = ''Cr'') (rows floats))),
              float_sum (map balance (filter (\<lambda>r. DrCr r = ''Db'') (rows floats)))))"
proof -
  define cr where "cr = map balance (filter (\<lambda>r. DrCr r = ''Cr'') (rows data))"
  define db where "db = map balance (filter (\<lambda>r. DrCr r = ''Db'') (rows data))"
  have res: "analyze_transactions int64 data =
      Inr (balance (last (rows data)), sum_list cr, sum_list db)"
    using assms by (simp add: analyze_transactions_def iloc_last_def last_map int64_def cr_def db_def)
  have cr_sum: "(\<Sum>w\<leftarrow>cr. sint w) = (\<Sum>r\<leftarrow>filter (\<lambda>r. DrCr r = ''Cr'') (rows data). sint (balance r))"
    by (simp add: cr_def comp_def)
  have db_sum: "(\<Sum>w\<leftarrow>db. sint w) = (\<Sum>r\<leftarrow>filter (\<lambda>r. DrCr r = ''Db'') (rows data). sint (balance r))"
    by (simp add: db_def comp_def)
  have ints: "\<exists>tc td.
      analyze_transactions int64 data = Inr (balance (last (rows data)), tc, td)
    \<and> sint tc = signed_take_bit 63 (\<Sum>r\<leftarrow>filter (\<lambda>r. DrCr r = ''Cr'') (rows data). sint (balance r))
    \<and> sint td = signed_take_bit 63 (\<Sum>r\<leftarrow>filter (\<lambda>r. DrCr r = ''Db'') (rows data). sint (balance r))
    \<and> (- (2 ^ 63) \<le> (\<Sum>r\<leftarrow>filter (\<lambda>r. DrCr r = ''Cr'') (rows data). sint (balance r))
         \<and> (\<Sum>r\<leftarrow>filter (\<lambda>r. DrCr r = ''Cr'') (rows data). sint (balance r)) < 2 ^ 63
       \<longrightarrow> sint tc = (\<Sum>r\<leftarrow>filter (\<lambda>r. DrCr r = ''Cr'') (rows data). sint (balance r)))
    \<and> (- (2 ^ 63) \<le> (\<Sum>r\<leftarrow>filter (\<lambda>r. DrCr r = ''Db'') (rows data). sint (balance r))
         \<and> (\<Sum>r\<leftarrow>filter (\<lambda>r. DrCr r = ''Db'') (rows data). sint (balance r)) < 2 ^ 63
       \<longrightarrow> sint td = (\<Sum>r\<leftarrow>filter (\<lambda>r. DrCr r = ''Db'') (rows data). sint (balance r)))"
    using res sint_sum_list [of cr] sint_sum_list [of db]
      sint_sum_list_exact [of cr] sint_sum_list_exact [of db]
    unfolding cr_sum db_sum by blast
  have "analyze_transactions (float64 float_sum) floats =
         Inr (balance (last (rows floats)),
              float_sum (map balance (filter (\<lambda>r. DrCr r = ''Cr'') (rows floats))),
              float_sum (map balance (filter (\<lambda>r. DrCr r = ''Db'') (rows floats))))"
    if "''DrCr'' \<in> set (columns floats) \<and> ''balance'' \<in> set (columns floats)
         \<and> rows floats \<noteq> []"
    using that by (simp add: analyze_transactions_def iloc_last_def last_map float64_def)
  with ints show ?thesis by blast
qed

text \<open>
  The scenario of the specification: credits 100 and 160 and a debit of 40 give the
  total balance 160 (the last row, not 260 - 40), total credit 260 and total debit 40.
\<close>

theorem analyze_transactions_totals_witness:
  "\<exists>tc td. analyze_transactions int64 \<lparr>columns = [''DrCr'', ''balance''],
      rows = [\<lparr>DrCr = ''Cr'', balance = 100\<rparr>, \<lparr>DrCr = ''Db'', balance = 40\<rparr>,
              \<lparr>DrCr = ''Cr'', balance = 160\<rparr>]\<rparr> = Inr (160, tc, td)
     \<and> sint tc = 260 \<and> sint td = 40"
  using analyze_transactions_totals [of "\<lparr>columns = [''DrCr'', ''balance''],
      rows = [\<lparr>DrCr = ''Cr'', balance = 100\<rparr>, \<lparr>DrCr = ''Db'', balance = 40\<rparr>,
              \<lparr>DrCr = ''Cr'', balance = 160\<rparr>]\<rparr>" "\<lparr>columns = [], rows = []\<rparr>" sum_list]
  by auto

section \<open>Sign of the totals\<close>





section \<open>The empty upload\<close>

text \<open>
  Claim C3, as stated, at an upload with both columns and no rows: the failure is the
  \<^verbatim>\<open>IndexError\<close> of the last-row lookup, which is not the error raised for the schema.
\<close>

theorem analyze_transactions_empty_error_counterexample:
  "analyze_transactions int64 \<lparr>columns = [''date'', ''DrCr'', ''balance''], rows = []\<rparr> =
     Inl IndexError"
  by (simp add: analyze_transactions_def iloc_last_def)

text \<open>
  Claim C3, amended: on an upload with both columns and no rows the analysis fails with
  the \<^verbatim>\<open>IndexError\<close> of the last-row lookup and with no \<^verbatim>\<open>ValueError\<close>, whatever its
  message and whatever the dtype of the column; logging such an upload shows that error
  and changes nothing.
\<close>

theorem analyze_transactions_empty:
  assumes "''DrCr'' \<in> set (columns data)" and "''balance'' \<in> set (columns data)"
    and "rows data = []"
  shows "analyze_transactions dt data = Inl IndexError
    \<and> (\<forall>msg. analyze_transactions dt data \<noteq> Inl (ValueError msg))
    \<and> store_transaction_data dt user_id data now s =
        ([st_error [Text ''Error storing transaction data: '', Raised IndexError]], s)"
  using assms by (simp add: analyze_transactions_def iloc_last_def store_transaction_data_def)

theorem analyze_transactions_empty_witness:
  "analyze_transactions int64 \<lparr>columns = [''balance'', ''DrCr''], rows = []\<rparr> = Inl IndexError
    \<and> store_transaction_data int64 ''u1'' \<lparr>columns = [''balance'', ''DrCr''], rows = []\<rparr>
        ''2024-01-01T00:00:00'' initial =
        ([st_error [Text ''Error storing transaction data: '', Raised IndexError]], initial)"
  using analyze_transactions_empty [of "\<lparr>columns = [''balance'', ''DrCr''], rows = []\<rparr>"
     int64 "''u1''" "''2024-01-01T00:00:00''" initial]
  by simp

section \<open>Missing columns\<close>

text \<open>
  Claim C9: when the \<open>DrCr\<close> column or the \<open>balance\<close> column is absent, the analysis
  fails with the \<^verbatim>\<open>ValueError\<close> whose message says that the dataset must contain both
  columns; logging the upload then only shows that error and leaves the state as it was,
  so the failure ends the action.
\<close>

theorem analyze_transactions_missing_column:
  assumes "''DrCr'' \<notin> set (columns data) \<or> ''balance'' \<notin> set (columns data)"
  shows "analyze_transactions dt data =
      Inl (ValueError ''Dataset must contain 'DrCr' and 'balance' columns.'')
    \<and> store_transaction_data dt user_id data now s =
        ([st_error [Text ''Error storing transaction data: '',
            Raised (ValueError ''Dataset must contain 'DrCr' and 'balance' columns.'')]], s)"
  using assms by (auto simp add: analyze_transactions_def store_transaction_data_def)

theorem analyze_transactions_missing_column_witness:
  "analyze_transactions int64 \<lparr>columns = [''date'', ''balance''],
       rows = [\<lparr>DrCr = [], balance = 10\<rparr>]\<rparr> =
      Inl (ValueError ''Dataset must contain 'DrCr' and 'balance' columns.'')
    \<and> store_transaction_data int64 ''u1'' \<lparr>columns = [''date'', ''balance''],
       rows = [\<lparr>DrCr = [], balance = 10\<rparr>]\<rparr> ''2024-01-01T00:00:00'' initial =
        ([st_error [Text ''Error storing transaction data: '',
            Raised (ValueError ''Dataset must contain 'DrCr' and 'balance' columns.'')]],
         initial)"
  using analyze_transactions_missing_column [of "\<lparr>columns = [''date'', ''balance''],
       rows = [\<lparr>DrCr = [], balance = 10\<rparr>]\<rparr>" int64 "''u1''" "''2024-01-01T00:00:00''" initial]
  by simp

section \<open>Rows with another marker\<close>

text \<open>
  Claim C10: in an upload with both columns, a row \<open>r\<close> whose marker is neither \<open>Cr\<close> nor
  \<open>Db\<close> raises nothing and adds to neither sum: the totals are the sums, as pandas takes
  them for the dtype of the column, over the other rows. The total balance is still
  taken from the last row, which is \<open>r\<close> itself when no row follows it.
\<close>

theorem analyze_transactions_unmarked_row:
  assumes "''DrCr'' \<in> set (columns data)" and "''balance'' \<in> set (columns data)"
    and "DrCr r \<noteq> ''Cr''" and "DrCr r \<noteq> ''Db''"
  shows "analyze_transactions dt (data\<lparr>rows := xs @ r # ys\<rparr>) =
      Inr (balance (last (r # ys)),
           series_sum dt (map balance (filter (\<lambda>x. DrCr x = ''Cr'') (xs @ ys))),
           series_sum dt (map balance (filter (\<lambda>x. DrCr x = ''Db'') (xs @ ys))))
    \<and> analyze_transactions dt (data\<lparr>rows := xs @ [r]\<rparr>) =
      Inr (balance r,
           series_sum dt (map balance (filter (\<lambda>x. DrCr x = ''Cr'') xs)),
           series_sum dt (map balance (filter (\<lambda>x. DrCr x = ''Db'') xs)))"
  using assms by (simp add: analyze_transactions_def iloc_last_def last_map)

text \<open>
  A credit of 100 followed by a row marked \<open>cr\<close> with balance 50: the totals are 100 and
  0, short of the 150 of all rows, and the total balance is 50.
\<close>

theorem analyze_transactions_unmarked_row_witness:
  "analyze_transactions int64 \<lparr>columns = [''DrCr'', ''balance''],
      rows = [\<lparr>DrCr = ''Cr'', balance = 100\<rparr>, \<lparr>DrCr = ''cr'', balance = 50\<rparr>]\<rparr> =
     Inr (50, 100, 0)
   \<and> (100::rat) + 0 \<noteq> 100 + 50"
  using analyze_transactions_unmarked_row
    [of "\<lparr>columns = [''DrCr'', ''balance''], rows = []\<rparr>"
     "\<lparr>DrCr = ''cr'', balance = 50\<rparr>" int64 "[\<lparr>DrCr = ''Cr'', balance = 100\<rparr>]" "[]"]
  by (simp add: int64_def)

section \<open>A failed analysis changes nothing\<close>

text \<open>
  Claim C4: for every user and every upload on which the analysis fails,
  \<open>store_transaction_data\<close> appends nothing: the exception is shown, and the state, with
  the log dictionary and the log file of every user, is the one before the call. The
  same holds for the dashboard page that calls it.
\<close>

theorem store_transaction_data_failure:
  assumes "analyze_transactions dt data = Inl e"
  shows "store_transaction_data dt user_id data now s =
           ([st_error [Text ''Error storing transaction data: '', Raised e]], s)
    \<and> (analyze_transactions int64 ints = Inl e' \<longrightarrow>
         snd (data_analytics_page float_sum user_id (CsvInt64 ints) now s) = s)
    \<and> (analyze_transactions (float64 float_sum) floats = Inl e' \<longrightarrow>
         snd (data_analytics_page float_sum user_id (CsvFloat64 floats) now s) = s)"
  using assms by (simp add: store_transaction_data_def data_analytics_page_def)

theorem store_transaction_data_failure_witness:
  "store_transaction_data int64 ''u2''
      \<lparr>columns = [''DrCr''], rows = [\<lparr>DrCr = ''Cr'', balance = 0\<rparr>]\<rparr>
      ''2024-02-02T10:00:00'' initial =
     ([st_error [Text ''Error storing transaction data: '',
        Raised (ValueError ''Dataset must contain 'DrCr' and 'balance' columns.'')]], initial)"
proof -
  have fails: "analyze_transactions int64
      \<lparr>columns = [''DrCr''], rows = [\<lparr>DrCr = ''Cr'', balance = 0\<rparr>]\<rparr> =
      Inl (ValueError ''Dataset must contain 'DrCr' and 'balance' columns.'')"
    by (simp add: analyze_transactions_def)
  from store_transaction_data_failure [OF fails, of "''u2''" "''2024-02-02T10:00:00''" initial]
  show ?thesis by simp
qed

section \<open>Recommendations\<close>



section \<open>Registration\<close>

text \<open>No run of the script removes or changes a profile that the profile file holds.\<close>

lemma USER_DATA_FILE_store:
  "USER_DATA_FILE (snd (store_transaction_data dt u data now s)) = USER_DATA_FILE s"
  by (simp add: store_transaction_data_def Let_def split: sum.splits prod.splits)

lemma snd_data_analytics_page:
  "snd (data_analytics_page float_sum u f now s) =
     (case f of
        CsvInt64 data \<Rightarrow> snd (store_transaction_data int64 u data now s)
      | CsvFloat64 data \<Rightarrow> snd (store_transaction_data (float64 float_sum) u data now s)
      | _ \<Rightarrow> s)"
  by (cases f) (auto simp: data_analytics_page_def split: prod.splits)

lemma USER_DATA_FILE_page:
  "USER_DATA_FILE (snd (data_analytics_page float_sum u f now s)) = USER_DATA_FILE s"
  by (cases f) (simp_all add: snd_data_analytics_page USER_DATA_FILE_store)

lemma USER_DATA_FILE_main:
  assumes "USER_DATA_FILE s = user_data s" and "USER_DATA_FILE s u = Some p"
  shows "USER_DATA_FILE (snd (main B float_sum i s)) u = Some p"
proof (cases i)
  case (SignUp v nm em pw salt)
  with assms show ?thesis
    by (auto simp: Let_def split: sum.splits)
next
  case (DataAnalytics f now)
  with assms show ?thesis
    by (simp add: USER_DATA_FILE_page split: option.splits)
qed (use assms in \<open>auto split: option.splits sum.splits\<close>)

lemma USER_DATA_FILE_script:
  assumes "USER_DATA_FILE s u = Some p"
  shows "USER_DATA_FILE (snd (script B float_sum i s)) u = Some p"
proof (cases "load s")
  case (Inl e)
  with assms show ?thesis by (simp add: script_def)
next
  case (Inr l)
  then have "USER_DATA_FILE l = user_data l" and "USER_DATA_FILE l u = Some p"
    using assms by (auto simp: load_def split: json_file.splits)
  then have "USER_DATA_FILE (snd (main B float_sum i l)) u = Some p"
    by (rule USER_DATA_FILE_main)
  with Inr show ?thesis by (simp add: script_def)
qed

lemma USER_DATA_FILE_run:
  "USER_DATA_FILE s u = Some p \<Longrightarrow> USER_DATA_FILE (run B float_sum acts s) u = Some p"
  by (induction acts arbitrary: s) (simp_all add: USER_DATA_FILE_script)

text \<open>
  Claim C5, as stated, with a library that raises on a password of more than 72 bytes,
  as bcrypt 5.0 does: signing up under an absent identifier with 73 bytes stores
  nothing.
\<close>

theorem sign_up_raises_counterexample:
  "''ann'' \<notin> dom (user_data initial)
   \<and> main bcrypt_raising sum_list
       (SignUp ''ann'' ''Ann'' ''ann@example.org'' (replicate 73 CHR ''a'') ''salt1'') initial =
     ([st_title ''Sign Up'',
       st_exception (ValueError ''password cannot be longer than 72 bytes, truncate manually if necessary (e.g. my_password[:72])'')], initial)"
  by (simp add: initial_def hash_password_def bcrypt_raising_def)

text \<open>
  Claim C5, amended: signing up under an identifier that is present is refused with the
  message that the user id exists, and changes nothing. Under an absent identifier the
  password is hashed by bcrypt under a fresh salt. If the library raises, the exception
  is shown and nothing is stored. If it returns a hash, the profile with the given name
  and email and that hash is stored, in the dictionary and in the file, and no other
  identifier is touched; a second sign-up under the same identifier, whatever its data,
  is then refused, and after any further interactions the stored profile is still the
  one of the first call.
\<close>

theorem sign_up_once:
  "(u \<in> dom (user_data s) \<longrightarrow>
      main B float_sum (SignUp u nm em pw salt) s =
        ([st_title ''Sign Up'', st_error [Text ''User ID already exists.'']], s))
   \<and> (u \<notin> dom (user_data s) \<and> hashpw B pw salt = Inl e \<longrightarrow>
        main B float_sum (SignUp u nm em pw salt) s = ([st_title ''Sign Up'', st_exception e], s))
   \<and> (u \<notin> dom (user_data s) \<and> hashpw B pw salt = Inr h \<longrightarrow>
        (let s1 = snd (main B float_sum (SignUp u nm em pw salt) s) in
           fst (main B float_sum (SignUp u nm em pw salt) s) =
             [st_title ''Sign Up'', st_success [Text ''User registered successfully!'']]
         \<and> user_data s1 u = Some \<lparr>name = nm, email = em, password = h\<rparr>
         \<and> (\<forall>v. v \<noteq> u \<longrightarrow> user_data s1 v = user_data s v)
         \<and> USER_DATA_FILE s1 = user_data s1
         \<and> main B float_sum (SignUp u nm' em' pw' salt') s1 =
             ([st_title ''Sign Up'', st_error [Text ''User ID already exists.'']], s1)
         \<and> (\<forall>acts. USER_DATA_FILE (run B float_sum acts s1) u =
               Some \<lparr>name = nm, email = em, password = h\<rparr>)))"
proof (intro conjI impI)
  assume "u \<in> dom (user_data s)"
  then show "main B float_sum (SignUp u nm em pw salt) s =
        ([st_title ''Sign Up'', st_error [Text ''User ID already exists.'']], s)"
    by simp
next
  assume "u \<notin> dom (user_data s) \<and> hashpw B pw salt = Inl e"
  then show "main B float_sum (SignUp u nm em pw salt) s =
      ([st_title ''Sign Up'', st_exception e], s)"
    by (simp add: hash_password_def)
next
  assume fresh: "u \<notin> dom (user_data s) \<and> hashpw B pw salt = Inr h"
  define s1 where "s1 = snd (main B float_sum (SignUp u nm em pw salt) s)"
  have stored: "user_data s1 u = Some \<lparr>name = nm, email = em, password = h\<rparr>"
    using fresh by (simp add: s1_def hash_password_def Let_def)
  have first: "fst (main B float_sum (SignUp u nm em pw salt) s) =
             [st_title ''Sign Up'', st_success [Text ''User registered successfully!'']]
         \<and> (\<forall>v. v \<noteq> u \<longrightarrow> user_data s1 v = user_data s v)
         \<and> USER_DATA_FILE s1 = user_data s1"
    using fresh by (simp add: s1_def hash_password_def Let_def)
  with stored have "USER_DATA_FILE s1 u = Some \<lparr>name = nm, email = em, password = h\<rparr>"
    by simp
  then have later: "USER_DATA_FILE (run B float_sum acts s1) u =
      Some \<lparr>name = nm, email = em, password = h\<rparr>" for acts
    by (rule USER_DATA_FILE_run)
  have again: "main B float_sum (SignUp u nm' em' pw' salt') s1 =
             ([st_title ''Sign Up'', st_error [Text ''User ID already exists.'']], s1)"
    using stored by (simp add: domI)
  from stored later first again
  show "let s1 = snd (main B float_sum (SignUp u nm em pw salt) s) in
           fst (main B float_sum (SignUp u nm em pw salt) s) =
             [st_title ''Sign Up'', st_success [Text ''User registered successfully!'']]
         \<and> user_data s1 u = Some \<lparr>name = nm, email = em, password = h\<rparr>
         \<and> (\<forall>v. v \<noteq> u \<longrightarrow> user_data s1 v = user_data s v)
         \<and> USER_DATA_FILE s1 = user_data s1
         \<and> main B float_sum (SignUp u nm' em' pw' salt') s1 =
             ([st_title ''Sign Up'', st_error [Text ''User ID already exists.'']], s1)
         \<and> (\<forall>acts. USER_DATA_FILE (run B float_sum acts s1) u =
               Some \<lparr>name = nm, email = em, password = h\<rparr>)"
    unfolding Let_def s1_def [symmetric] by blast
qed

theorem sign_up_once_witness:
  "''ann'' \<notin> dom (user_data initial)
   \<and> hashpw bcrypt_raising ''pw1'' ''salt1'' = Inr ''pw1''
   \<and> user_data (snd (main bcrypt_raising sum_list
        (SignUp ''ann'' ''Ann'' ''ann@example.org'' ''pw1'' ''salt1'') initial)) ''ann''
       = Some \<lparr>name = ''Ann'', email = ''ann@example.org'', password = ''pw1''\<rparr>
   \<and> fst (main bcrypt_raising sum_list
        (SignUp ''ann'' ''Eve'' ''eve@example.org'' ''pw2'' ''salt2'')
        (snd (main bcrypt_raising sum_list
           (SignUp ''ann'' ''Ann'' ''ann@example.org'' ''pw1'' ''salt1'') initial))) =
       [st_title ''Sign Up'', st_error [Text ''User ID already exists.'']]"
proof -
  have fresh: "''ann'' \<notin> dom (user_data initial)"
    by (simp add: initial_def)
  have hashed: "hashpw bcrypt_raising ''pw1'' ''salt1'' = Inr ''pw1''"
    by (simp add: bcrypt_raising_def)
  from fresh hashed sign_up_once [of "''ann''" initial bcrypt_raising sum_list
      "''Ann''" "''ann@example.org''" "''pw1''" "''salt1''" IndexError "''pw1''"
      "''Eve''" "''eve@example.org''" "''pw2''" "''salt2''"]
  show ?thesis
    by (simp add: Let_def del: main.simps)
qed

section \<open>Login\<close>




section \<open>Logging an upload with an integer column\<close>

text \<open>
  When the dtype of the column is one that \<^verbatim>\<open>json.dump\<close> refuses and the analysis
  succeeds, the entry is appended in memory, the error is shown and the log file is left
  truncated.
\<close>

lemma store_transaction_data_refused:
  assumes "analyze_transactions dt data = Inr (tb, incoming, outgoing)"
    and "\<not> json_serializable dt"
  shows "fst (store_transaction_data dt u data now s) =
           [st_error [Text ''Error storing transaction data: '', Raised TypeError]]
       \<and> TRANSACTION_LOG_FILE (snd (store_transaction_data dt u data now s)) = Truncated
       \<and> get_log (transaction_logs (snd (store_transaction_data dt u data now s))) u =
           get_log (transaction_logs s) u @
             [\<lparr>transactions = to_dict dt data, total_balance = exact dt tb,
               total_credit = exact dt incoming, total_debit = exact dt outgoing,
               timestamp = now\<rparr>]"
  using assms by (simp add: store_transaction_data_def Let_def get_log_def)

text \<open>
  Claim C7 at the scenario of the specification, uploaded by \<open>ann\<close> while the log file
  holds an entry of \<open>bob\<close>. The three balances 100, 40 and 160 form an integer column,
  so the totals are \<^verbatim>\<open>numpy.int64\<close> values. \<open>store_transaction_data\<close> appends the entry
  in memory, but saving raises \<^verbatim>\<open>TypeError\<close>: the handler shows the error and the log
  file, with the entry of \<open>bob\<close>, is left truncated. The same happens through the
  dashboard page, and the next run of the script fails while loading the file.
\<close>

theorem store_transaction_data_integer_column:
  "store_transaction_data int64 ''ann''
      \<lparr>columns = [''DrCr'', ''balance''],
       rows = [\<lparr>DrCr = ''Cr'', balance = 100\<rparr>, \<lparr>DrCr = ''Db'', balance = 40\<rparr>,
               \<lparr>DrCr = ''Cr'', balance = 160\<rparr>]\<rparr>
      ''t2''
      (initial\<lparr>transaction_logs := [''bob'' \<mapsto> [\<lparr>transactions = [], total_balance = 10,
          total_credit = 10, total_debit = 0, timestamp = ''t1''\<rparr>]],
        TRANSACTION_LOG_FILE := Document [''bob'' \<mapsto> [\<lparr>transactions = [], total_balance = 10,
          total_credit = 10, total_debit = 0, timestamp = ''t1''\<rparr>]]\<rparr>) =
     ([st_error [Text ''Error storing transaction data: '', Raised TypeError]],
      initial\<lparr>transaction_logs :=
          [''bob'' \<mapsto> [\<lparr>transactions = [], total_balance = 10,
             total_credit = 10, total_debit = 0, timestamp = ''t1''\<rparr>],
           ''ann'' \<mapsto> [\<lparr>transactions =
               [\<lparr>DrCr = ''Cr'', balance = 100\<rparr>, \<lparr>DrCr = ''Db'', balance = 40\<rparr>,
                \<lparr>DrCr = ''Cr'', balance = 160\<rparr>],
             total_balance = 160, total_credit = 260, total_debit = 40, timestamp = ''t2''\<rparr>]],
        TRANSACTION_LOG_FILE := Truncated, numpy_in_logs := True\<rparr>)
   \<and> TRANSACTION_LOG_FILE (snd (script bcrypt_raising sum_list
        (DataAnalytics (CsvInt64 \<lparr>columns = [''DrCr'', ''balance''],
           rows = [\<lparr>DrCr = ''Cr'', balance = 100\<rparr>, \<lparr>DrCr = ''Db'', balance = 40\<rparr>,
                   \<lparr>DrCr = ''Cr'', balance = 160\<rparr>]\<rparr>) ''t2'')
        (initial\<lparr>TRANSACTION_LOG_FILE := Document [''bob'' \<mapsto> [\<lparr>transactions = [],
            total_balance = 10, total_credit = 10, total_debit = 0, timestamp = ''t1''\<rparr>]],
          session_user_id := Some ''ann''\<rparr>))) = Truncated
   \<and> fst (script bcrypt_raising sum_list Recommendations
        (snd (script bcrypt_raising sum_list
          (DataAnalytics (CsvInt64 \<lparr>columns = [''DrCr'', ''balance''],
             rows = [\<lparr>DrCr = ''Cr'', balance = 100\<rparr>, \<lparr>DrCr = ''Db'', balance = 40\<rparr>,
                     \<lparr>DrCr = ''Cr'', balance = 160\<rparr>]\<rparr>) ''t2'')
          (initial\<lparr>TRANSACTION_LOG_FILE := Document [''bob'' \<mapsto> [\<lparr>transactions = [],
              total_balance = 10, total_credit = 10, total_debit = 0, timestamp = ''t1''\<rparr>]],
            session_user_id := Some ''ann''\<rparr>)))) = [st_exception JSONDecodeError]"
  by (simp add: store_transaction_data_def analyze_transactions_def iloc_last_def int64_def
      to_dict_def get_log_def initial_def Let_def script_def load_def data_analytics_page_def)

end
